theory Spec2Isabelle
  imports Main "HOL-Library.Finite_Map" "HOL-Library.List_Lexorder" "HOL-Library.Char_ord"
begin

section \<open>The object model consumed by the merge\<close>

text \<open>
  \<^verbatim>\<open>zipfix/merge.py\<close> imports \<^verbatim>\<open>Oid, GitObj, Tree, Blob, Commit, Entry, Mode\<close> from
  \<^verbatim>\<open>zipfix/odb.py\<close>.  The definitions of this section stand for that module, following
  the data model the specification gives for it.
\<close>

type_synonym bytes = string

text \<open>
  Modelled from the spec: the enumeration \<^verbatim>\<open>Mode\<close> of \<^verbatim>\<open>odb.py\<close>.  ``Enumerated entry
  kind: REGULAR file, EXECUTABLE file, DIRECTORY, SYMLINK, GITLINK''; the members carry
  the names \<^verbatim>\<open>merge.py\<close> uses for them.
\<close>

datatype Mode = GITLINK | SYMLINK | DIR | REGULAR | EXEC

text \<open>
  Modelled from the spec: \<^verbatim>\<open>Mode.is_file\<close> of \<^verbatim>\<open>odb.py\<close>, ``true for
  REGULAR/EXECUTABLE only''.
\<close>

definition is_file :: "Mode \<Rightarrow> bool" where
  "is_file m \<longleftrightarrow> m = REGULAR \<or> m = EXEC"

text \<open>
  Modelled from the spec: the class \<^verbatim>\<open>Entry\<close> of \<^verbatim>\<open>odb.py\<close>, the ``pair (Mode, Oid)'' whose
  ``equality is structural (mode and oid both equal)''.
\<close>

datatype 'o Entry = Entry (mode: Mode) (oid: 'o)

text \<open>
  Modelled from the spec: the class \<^verbatim>\<open>Oid\<close> of \<^verbatim>\<open>odb.py\<close>.  An Oid is the ``opaque content
  hash identifying an object; two objects are structurally equal iff their Oids are
  equal (collision-free hash assumed)'', and ``Trees form a DAG by content-hash
  construction''.  A collision-free hash of the content is an injective function of the
  content, so the Oid of an object is represented by the content it is the hash of: the
  bytes of a blob, the name-to-entry mapping of a tree, the fields of a commit.
\<close>

datatype Oid =
    Blob_Oid bytes
  | Tree_Oid "(bytes, Oid Entry) fmap"
  | Commit_Oid Oid "Oid list" string string string

text \<open>
  Modelled from the spec: the classes \<^verbatim>\<open>Blob\<close>, \<^verbatim>\<open>Tree\<close> and \<^verbatim>\<open>Commit\<close> of \<^verbatim>\<open>odb.py\<close>
  with their attribute \<^verbatim>\<open>oid\<close>.  A Blob is an ``immutable byte sequence'', a Tree ``an
  immutable mapping from name (byte string) to Entry'', a Commit an ``immutable record:
  tree Oid, ordered sequence of parent Oids, message, author'', completed by the
  committer that ``the environment'' supplies ``at creation time''.
\<close>

datatype Blob = Blob (body: bytes)

datatype Tree = Tree (entries: "(bytes, Oid Entry) fmap")

datatype Commit =
  Commit (tree_oid: Oid) (parent_oids: "Oid list") (message: string) (author: string)
    (committer: string)

definition Blob_oid :: "Blob \<Rightarrow> Oid" where
  "Blob_oid b = Blob_Oid (body b)"

definition Tree_oid :: "Tree \<Rightarrow> Oid" where
  "Tree_oid t = Tree_Oid (entries t)"

definition Commit_oid :: "Commit \<Rightarrow> Oid" where
  "Commit_oid c =
     Commit_Oid (tree_oid c) (parent_oids c) (message c) (author c) (committer c)"

text \<open>
  Modelled from the spec: \<^verbatim>\<open>Tree.create(entries)\<close> and \<^verbatim>\<open>Tree.empty()\<close> of \<^verbatim>\<open>odb.py\<close>.
\<close>

definition Tree_create :: "(bytes, Oid Entry) fmap \<Rightarrow> Tree" where
  "Tree_create es = Tree es"

definition Tree_empty :: "Tree" where
  "Tree_empty = Tree fmempty"

text \<open>
  Modelled from the spec: reading the object an Oid names (\<^verbatim>\<open>Entry.blob()\<close>,
  \<^verbatim>\<open>Entry.tree()\<close>, \<^verbatim>\<open>Entry.symlink()\<close>, \<^verbatim>\<open>Commit.tree()\<close> of \<^verbatim>\<open>odb.py\<close>).  The object
  store is an external collaborator that hands out the content an Oid was computed
  from; an Oid of another kind of object is read as the empty blob or the empty tree.
  ``Blob: immutable byte sequence (file content) plus, for SYMLINK entries, a
  byte-string target path.''
\<close>

definition Blob_get :: "Oid \<Rightarrow> Blob" where
  "Blob_get i = (case i of Blob_Oid b \<Rightarrow> Blob b | _ \<Rightarrow> Blob [])"

definition Tree_get :: "Oid \<Rightarrow> Tree" where
  "Tree_get i = (case i of Tree_Oid es \<Rightarrow> Tree es | _ \<Rightarrow> Tree_empty)"

definition blob :: "Oid Entry \<Rightarrow> Blob" where
  "blob e = Blob_get (oid e)"

definition tree :: "Oid Entry \<Rightarrow> Tree" where
  "tree e = Tree_get (oid e)"

definition symlink :: "Oid Entry \<Rightarrow> bytes" where
  "symlink e = body (Blob_get (oid e))"


section \<open>Errors, the outside world and the external collaborators\<close>

text \<open>
  \<^verbatim>\<open>class MergeConflict(Exception)\<close> is the one exception class \<^verbatim>\<open>merge.py\<close> declares; it
  also raises the built-in \<^verbatim>\<open>ValueError\<close>.  Of the built-in functions it calls, \<^verbatim>\<open>input\<close>
  raises \<^verbatim>\<open>EOFError\<close> when standard input is exhausted, and \<^verbatim>\<open>bytes.decode()\<close>, which is
  strict, raises \<^verbatim>\<open>UnicodeDecodeError\<close> on bytes that are not UTF-8.
\<close>

datatype error = MergeConflict string | ValueError string | EOFError | UnicodeDecodeError

text \<open>
  What the program does to its surroundings, in order: the lines it prints, the prompts
  of \<^verbatim>\<open>input\<close>, and the two subprocesses it runs, each with its three labels and the
  contents of its three input files.
\<close>

datatype event =
    Print string
  | Input string
  | Git_merge_file string string string bytes bytes bytes
  | Kdiff3 string string string bytes bytes bytes

record world =
  stdin :: "string list"
  trace :: "event list"

type_synonym 'a result = "(error + 'a) \<times> world"

text \<open>
  The collaborators \<^verbatim>\<open>merge.py\<close> calls and does not define.  \<^verbatim>\<open>decode_replace\<close> is
  \<^verbatim>\<open>bytes.decode(errors='replace')\<close>, \<^verbatim>\<open>decode\<close> is \<^verbatim>\<open>bytes.decode()\<close>, \<^verbatim>\<open>str_mode\<close> and
  \<^verbatim>\<open>str_oid\<close> are \<^verbatim>\<open>str\<close> on a Mode and on an Oid, \<^verbatim>\<open>iter_set\<close> is the order in which
  Python enumerates a set of names.  \<^verbatim>\<open>decode_replace\<close> never fails; \<^verbatim>\<open>decode\<close> gives
  \<open>None\<close> on the bytes for which Python raises.  \<^verbatim>\<open>git_merge_file\<close> is the primary merge tool: from
  the labels and the contents of the files \<^verbatim>\<open>current\<close>, \<^verbatim>\<open>base\<close>, \<^verbatim>\<open>other\<close> it gives the
  return code and the standard output.  \<^verbatim>\<open>kdiff3\<close> is the secondary, interactive tool:
  from the labels and the contents of \<^verbatim>\<open>base\<close>, \<^verbatim>\<open>current\<close>, \<^verbatim>\<open>other\<close> it gives the content
  of the file \<^verbatim>\<open>merged\<close> it writes.  \<^verbatim>\<open>env_committer\<close> is the committer identity of the
  environment.
\<close>

record env =
  decode_replace :: "bytes \<Rightarrow> string"
  decode :: "bytes \<Rightarrow> string option"
  str_mode :: "Mode \<Rightarrow> string"
  str_oid :: "Oid \<Rightarrow> string"
  iter_set :: "bytes fset \<Rightarrow> bytes list"
  git_merge_file :: "string \<Rightarrow> string \<Rightarrow> string \<Rightarrow> bytes \<Rightarrow> bytes \<Rightarrow> bytes \<Rightarrow> int \<times> bytes"
  kdiff3 :: "string \<Rightarrow> string \<Rightarrow> string \<Rightarrow> bytes \<Rightarrow> bytes \<Rightarrow> bytes \<Rightarrow> bytes"
  env_committer :: string

text \<open>
  Python enumerates every element of a set once.  The order is left to \<^verbatim>\<open>iter_set\<close>.
\<close>

definition enumerates :: "env \<Rightarrow> bool" where
  "enumerates env \<longleftrightarrow> (\<forall>S. distinct (iter_set env S) \<and> set (iter_set env S) = fset S)"



subsection \<open>Built-in functions with an effect\<close>

definition print :: "string \<Rightarrow> world \<Rightarrow> world" where
  "print s w = w\<lparr>trace := trace w @ [Print s]\<rparr>"

definition input :: "string \<Rightarrow> world \<Rightarrow> string result" where
  "input prompt w =
     (case stdin w of
        [] \<Rightarrow> (Inl EOFError, w\<lparr>trace := trace w @ [Input prompt]\<rparr>)
      | l # ls \<Rightarrow> (Inr l, w\<lparr>stdin := ls, trace := trace w @ [Input prompt]\<rparr>))"

text \<open>\<^verbatim>\<open>str.lower\<close>, on the ASCII letters.\<close>

definition lower_char :: "char \<Rightarrow> char" where
  "lower_char c =
     (case map_of (zip ''ABCDEFGHIJKLMNOPQRSTUVWXYZ'' ''abcdefghijklmnopqrstuvwxyz'') c of
        None \<Rightarrow> c
      | Some l \<Rightarrow> l)"

definition lower :: "string \<Rightarrow> string" where
  "lower s = map lower_char s"

text \<open>
  \<^verbatim>\<open>pathlib.Path\<close>, through the text \<^verbatim>\<open>str\<close> gives for it: \<^verbatim>\<open>Path('/') / 'a' / 'b'\<close> is
  \<^verbatim>\<open>/a/b\<close>.  Paths occur in diagnostics only.
\<close>

type_synonym Path = string

definition path_div :: "Path \<Rightarrow> string \<Rightarrow> Path" where
  "path_div p s = (if p = ''/'' then p @ s else p @ ''/'' @ s)"

type_synonym labels = "string \<times> string \<times> string"

section \<open>The merge engine: \<^verbatim>\<open>zipfix/merge.py\<close>\<close>

subsection \<open>\<^verbatim>\<open>conflict_prompt\<close>\<close>

definition conflict_prompt ::
  "Path \<Rightarrow> string \<Rightarrow> labels \<Rightarrow> 'a \<Rightarrow> string \<Rightarrow> 'a \<Rightarrow> string \<Rightarrow> world \<Rightarrow> 'a result" where
  "conflict_prompt path descr labels current current_descr other other_descr w =
     (case labels of (l0, l1, l2) \<Rightarrow>
       (let w1 = print (descr @ '' conflict for '' @ [CHR 0x27] @ path @ [CHR 0x27]) w;
            w2 = print (''  (1) '' @ l0 @ '': '' @ current_descr) w1;
            w3 = print (''  (2) '' @ l1 @ '': '' @ other_descr) w2
        in case input ''Resolution or (A)bort? '' w3 of
             (Inl e, w4) \<Rightarrow> (Inl e, w4)
           | (Inr ch, w4) \<Rightarrow>
               if ch = ''1'' then (Inr current, w4)
               else if ch = ''2'' then (Inr other, w4)
               else (Inl (MergeConflict ''aborted''), w4)))"

subsection \<open>\<^verbatim>\<open>merge_blobs\<close>\<close>

text \<open>The label \<^verbatim>\<open>f"{path} ({labels[i]})"\<close> of a file handed to a merge tool.\<close>

definition file_label :: "Path \<Rightarrow> string \<Rightarrow> string" where
  "file_label path l = path @ '' ('' @ l @ '')''"

text \<open>
  The temporary directory holds the files \<^verbatim>\<open>current\<close>, \<^verbatim>\<open>base\<close> (left empty when there is
  no base blob) and \<^verbatim>\<open>other\<close>; it is private to the call, so the files are the values
  written to them.
\<close>

definition merge_blobs ::
  "env \<Rightarrow> Path \<Rightarrow> labels \<Rightarrow> Blob \<Rightarrow> Blob option \<Rightarrow> Blob \<Rightarrow> world \<Rightarrow> Blob result" where
  "merge_blobs env path labels current base other w =
     (case labels of (l0, l1, l2) \<Rightarrow>
       (let f_current = body current;
            f_base = (case base of None \<Rightarrow> [] | Some b \<Rightarrow> body b);
            f_other = body other;
            current_lbl = file_label path l0;
            base_lbl = file_label path l1;
            other_lbl = file_label path l2;
            process = git_merge_file env current_lbl base_lbl other_lbl f_current f_base f_other;
            w1 = w\<lparr>trace := trace w @
                   [Git_merge_file current_lbl base_lbl other_lbl f_current f_base f_other]\<rparr>
        in if fst process = 0 then (Inr (Blob (snd process)), w1)
           else if fst process < 0 then (Inl (MergeConflict ''git merge-file errored''), w1)
           else
            (let f_merged = kdiff3 env base_lbl current_lbl other_lbl f_base f_current f_other;
                 w2 = w1\<lparr>trace := trace w1 @
                        [Kdiff3 base_lbl current_lbl other_lbl f_base f_current f_other]\<rparr>
             in case input ''Have conflicts resolved successfully? (y/N) '' w2 of
                  (Inl e, w3) \<Rightarrow> (Inl e, w3)
                | (Inr answer, w3) \<Rightarrow>
                    if lower answer \<noteq> ''y'' then (Inl (MergeConflict ''merging failed''), w3)
                    else (Inr (Blob f_merged), w3))))"

subsection \<open>\<^verbatim>\<open>merge_trees\<close> and \<^verbatim>\<open>merge_entries\<close>\<close>

text \<open>
  Lines 97 to 111 of \<^verbatim>\<open>merge_entries\<close>: the mode the two present entries are merged
  under, or \<open>None\<close> where the source returns the answer to the ``Entry type'' prompt.
\<close>

definition resolve_mode :: "Oid Entry \<Rightarrow> Oid Entry option \<Rightarrow> Oid Entry \<Rightarrow> Mode option" where
  "resolve_mode current base other =
     (if mode current = mode other then Some (mode current)
      else if is_file (mode current) \<and> is_file (mode other) then
        (if (case base of None \<Rightarrow> False | Some b \<Rightarrow> mode b = mode current)
         then Some (mode other)
         else if (case base of None \<Rightarrow> False | Some b \<Rightarrow> mode b = mode other)
         then Some (mode current)
         else Some EXEC)
      else None)"

text \<open>
  The size of a tree: the measure under which the recursion of \<open>merge_trees\<close> through
  the subtrees of \<open>current\<close> ends.
\<close>

definition tree_size :: "Tree \<Rightarrow> nat" where
  "tree_size t = size_fmap (\<lambda>_. 0) (size_Entry size) (entries t)"

text \<open>
  The \<^verbatim>\<open>for name in names\<close> loop of \<^verbatim>\<open>merge_trees\<close> is \<open>merge_trees_loop\<close>, over the names
  still to visit and the dictionary \<^verbatim>\<open>entries\<close> built so far.  An exception leaves the
  loop at once.
\<close>

function
  merge_trees :: "env \<Rightarrow> Path \<Rightarrow> labels \<Rightarrow> Tree \<Rightarrow> Tree \<Rightarrow> Tree \<Rightarrow> world \<Rightarrow> Tree result"
and
  merge_trees_loop ::
    "env \<Rightarrow> Path \<Rightarrow> labels \<Rightarrow> Tree \<Rightarrow> Tree \<Rightarrow> Tree \<Rightarrow> bytes list \<Rightarrow>
       (bytes, Oid Entry) fmap \<Rightarrow> world \<Rightarrow> (bytes, Oid Entry) fmap result"
and
  merge_entries ::
    "env \<Rightarrow> Path \<Rightarrow> labels \<Rightarrow> Oid Entry option \<Rightarrow> Oid Entry option \<Rightarrow> Oid Entry option \<Rightarrow>
       world \<Rightarrow> Oid Entry option result"
where
  "merge_trees env path labels current base other w =
     (let names = fmdom (entries current) |\<union>| (fmdom (entries base) |\<union>| fmdom (entries other))
      in case merge_trees_loop env path labels current base other (iter_set env names) fmempty w of
           (Inl e, w') \<Rightarrow> (Inl e, w')
         | (Inr es, w') \<Rightarrow> (Inr (Tree_create es), w'))"
| "merge_trees_loop env path labels current base other [] es w = (Inr es, w)"
| "merge_trees_loop env path labels current base other (name # names) es w =
     (case merge_entries env (path_div path (decode_replace env name)) labels
             (fmlookup (entries current) name)
             (fmlookup (entries base) name)
             (fmlookup (entries other) name) w of
        (Inl e, w') \<Rightarrow> (Inl e, w')
      | (Inr merged, w') \<Rightarrow>
          merge_trees_loop env path labels current base other names
            (case merged of None \<Rightarrow> es | Some m \<Rightarrow> fmupd name m es) w')"
| "merge_entries env path labels current base other w =
     (if base = current then (Inr other, w)
      else if base = other then (Inr current, w)
      else if current = other then (Inr current, w)
      else case current of
        None \<Rightarrow>
          conflict_prompt path ''Deletion'' labels current ''deleted'' other ''modified'' w
      | Some cur \<Rightarrow>
         (case other of
            None \<Rightarrow>
              conflict_prompt path ''Deletion'' labels current ''modified'' other ''deleted'' w
          | Some oth \<Rightarrow>
             (case resolve_mode cur base oth of
                None \<Rightarrow>
                  conflict_prompt path ''Entry type'' labels
                    current (str_mode env (mode cur)) other (str_mode env (mode oth)) w
              | Some mode' \<Rightarrow>
                  if is_file mode' then
                    (let baseblob =
                           (case base of None \<Rightarrow> None
                            | Some b \<Rightarrow> if is_file (mode b) then Some (blob b) else None)
                     in case merge_blobs env path labels (blob cur) baseblob (blob oth) w of
                          (Inl e, w') \<Rightarrow> (Inl e, w')
                        | (Inr merged, w') \<Rightarrow> (Inr (Some (Entry mode' (Blob_oid merged))), w'))
                  else if mode' = DIR then
                    (let basetree =
                           (case base of None \<Rightarrow> Tree_empty
                            | Some b \<Rightarrow> if mode b = DIR then tree b else Tree_empty)
                     in case merge_trees env path labels (tree cur) basetree (tree oth) w of
                          (Inl e, w') \<Rightarrow> (Inl e, w')
                        | (Inr merged, w') \<Rightarrow> (Inr (Some (Entry mode' (Tree_oid merged))), w'))
                  else if mode' = SYMLINK then
                    (case decode env (symlink cur) of
                       None \<Rightarrow> (Inl UnicodeDecodeError, w)
                     | Some current_descr \<Rightarrow>
                        (case decode env (symlink oth) of
                           None \<Rightarrow> (Inl UnicodeDecodeError, w)
                         | Some other_descr \<Rightarrow>
                             conflict_prompt path ''Symlink'' labels
                               current current_descr other other_descr w))
                  else if mode' = GITLINK then
                    conflict_prompt path ''Submodule'' labels
                      current (str_oid env (oid cur)) other (str_oid env (oid oth)) w
                  else (Inl (ValueError ''unknown mode''), w))))"
  by pat_completeness auto

termination
proof (relation "inv_image (less_than <*lex*> less_than)
     (\<lambda>x. case x of
        Inl (env, path, labels, current, base, other, w) \<Rightarrow> (3 * tree_size current + 1, 0)
      | Inr (Inl (env, path, labels, current, base, other, names, es, w)) \<Rightarrow>
          (3 * tree_size current, length names)
      | Inr (Inr (env, path, labels, current, base, other, w)) \<Rightarrow>
          (case current of None \<Rightarrow> (0, 0) | Some e \<Rightarrow> (3 * size (oid e) + 2, 0)))", goal_cases)
  case 1
  show ?case by (intro wf_inv_image wf_lex_prod wf_less_than)
next
  case 2
  show ?case by simp
next
  case (3 env path labels current base other name names es w)
  have inner: "size (oid e) + 2 \<le> tree_size current"
    if look: "fmlookup (entries current) name = Some e" for e
  proof -
    have mem: "(name, e) \<in> fset (fset_of_fmap (entries current))"
      using look by simp
    have "(Suc \<circ> (\<lambda>(a, b). 0 + size_Entry size b)) (name, e)
            \<le> sum (Suc \<circ> (\<lambda>(a, b). 0 + size_Entry size b)) (fset (fset_of_fmap (entries current)))"
      by (rule member_le_sum[OF mem]) simp_all
    moreover have "size_Entry size e = size (oid e) + 1"
      by (cases e) simp
    ultimately show ?thesis
      by (simp add: tree_size_def size_fset_overloaded_def)
  qed
  show ?case
    by (auto split: option.splits dest!: inner)
next
  case 4
  show ?case by simp
next
  case (5 env path labels current base other w cur oth mode' basetree)
  have "tree_size (tree cur) \<le> size (oid cur)"
    by (cases "oid cur")
      (simp_all add: tree_size_def tree_def Tree_get_def Tree_empty_def fset_of_fmap.rep_eq
         set_of_map_def)
  with 5 show ?case by simp
qed

declare merge_trees.simps [simp del] merge_entries.simps [simp del]

subsection \<open>\<^verbatim>\<open>rebase\<close>\<close>


section \<open>Observations on a run\<close>

text \<open>
  \<^verbatim>\<open>except MergeConflict\<close>: whether an exception is an instance of the class
  \<^verbatim>\<open>MergeConflict\<close>.
\<close>

definition is_MergeConflict :: "error \<Rightarrow> bool" where
  "is_MergeConflict e = (case e of MergeConflict msg \<Rightarrow> True | _ \<Rightarrow> False)"

text \<open>Whether an event is a line printed, as \<^verbatim>\<open>conflict_prompt\<close> does before it asks.\<close>

definition is_Print :: "event \<Rightarrow> bool" where
  "is_Print ev = (case ev of Print s \<Rightarrow> True | _ \<Rightarrow> False)"

subsection \<open>The exceptions of the collaborators\<close>

text \<open>
  What the resolver \<^verbatim>\<open>conflict_prompt\<close> raises: the abort and the end of standard input.
  What the content merger \<^verbatim>\<open>merge_blobs\<close> raises: the failure of the primary tool, the
  refused confirmation and the end of standard input.
\<close>

definition resolver_errors :: "error set" where
  "resolver_errors = {MergeConflict ''aborted'', EOFError}"

definition merger_errors :: "error set" where
  "merger_errors =
     {MergeConflict ''git merge-file errored'', MergeConflict ''merging failed'', EOFError}"

text \<open>What the strict \<^verbatim>\<open>bytes.decode()\<close> raises.\<close>

definition decode_errors :: "error set" where
  "decode_errors = {UnicodeDecodeError}"

subsection \<open>The calls the loop of \<^verbatim>\<open>merge_trees\<close> makes\<close>

text \<open>
  The calls of \<^verbatim>\<open>merge_entries\<close> that the loop of \<^verbatim>\<open>merge_trees\<close> makes from the world \<open>w\<close>
  over the names given, in order: each with the name it is made for and with what it
  returned, the result and the world it left.  The loop ends with the first call that
  raises.
\<close>

fun merge_entries_calls ::
  "env \<Rightarrow> Path \<Rightarrow> labels \<Rightarrow> Tree \<Rightarrow> Tree \<Rightarrow> Tree \<Rightarrow> bytes list \<Rightarrow> world \<Rightarrow>
     (bytes \<times> Oid Entry option result) list" where
  "merge_entries_calls env path labels current base other [] w = []"
| "merge_entries_calls env path labels current base other (name # names) w =
     (let r = merge_entries env (path_div path (decode_replace env name)) labels
                (fmlookup (entries current) name)
                (fmlookup (entries base) name)
                (fmlookup (entries other) name) w
      in (name, r) #
         (case fst r of
            Inl e \<Rightarrow> []
          | Inr merged \<Rightarrow> merge_entries_calls env path labels current base other names (snd r)))"

section \<open>Concrete inputs\<close>

text \<open>
  An environment whose primary merge tool exits with the status \<open>rc\<close>, a world with the
  given lines on standard input, and a few objects, on which the theorems below are
  run.  The environment decodes the bytes below \<open>0x80\<close>, which are their own UTF-8
  encoding, and refuses the others; the bytes \<open>0xFE\<close> and \<open>0xFF\<close> used below occur in no
  UTF-8 encoding.
\<close>

definition ex_env :: "int \<Rightarrow> env" where
  "ex_env rc = \<lparr> decode_replace = (\<lambda>b. b),
     decode = (\<lambda>b. if list_all (\<lambda>c. \<not> digit7 c) b then Some b else None),
     str_mode = (\<lambda>m. ''Mode''), str_oid = (\<lambda>i. ''oid''),
     iter_set = sorted_list_of_fset,
     git_merge_file = (\<lambda>cl bl ol c b x. (rc, c @ x)),
     kdiff3 = (\<lambda>bl cl ol b c x. x @ c),
     env_committer = ''committer'' \<rparr>"

definition ex_world :: "string list \<Rightarrow> world" where
  "ex_world answers = \<lparr>stdin = answers, trace = []\<rparr>"

definition ex_labels :: labels where
  "ex_labels = (''new parent'', ''old parent'', ''incoming'')"

definition ex_a :: "Oid Entry" where
  "ex_a = Entry REGULAR (Blob_Oid ''a'')"

definition ex_b :: "Oid Entry" where
  "ex_b = Entry REGULAR (Blob_Oid ''b'')"

definition ex_xb :: "Oid Entry" where
  "ex_xb = Entry EXEC (Blob_Oid ''b'')"

definition ex_root :: Commit where
  "ex_root = Commit (Tree_Oid fmempty) [] ''root'' ''author'' ''committer''"

definition ex_commit :: Commit where
  "ex_commit =
     Commit (Tree_Oid (fmupd ''f'' ex_a fmempty)) [Commit_oid ex_root]
       ''change'' ''author'' ''committer''"

definition ex_c :: "Oid Entry" where
  "ex_c = Entry REGULAR (Blob_Oid ''c'')"

definition ex_link1 :: "Oid Entry" where
  "ex_link1 = Entry SYMLINK (Blob_Oid [CHR 0xFF])"

definition ex_link2 :: "Oid Entry" where
  "ex_link2 = Entry SYMLINK (Blob_Oid [CHR 0xFE])"

definition ex_link3 :: "Oid Entry" where
  "ex_link3 = Entry SYMLINK (Blob_Oid ''x'')"

definition ex_link4 :: "Oid Entry" where
  "ex_link4 = Entry SYMLINK (Blob_Oid ''y'')"

definition ex_tree :: Tree where
  "ex_tree = Tree (fmupd ''f'' ex_a (fmupd ''g'' ex_xb fmempty))"

definition ex_current :: Tree where
  "ex_current = Tree (fmupd ''f'' ex_b (fmupd ''g'' ex_a fmempty))"

definition ex_base :: Tree where
  "ex_base = Tree (fmupd ''f'' ex_a (fmupd ''g'' ex_a fmempty))"

definition ex_other :: Tree where
  "ex_other = Tree (fmupd ''f'' ex_a fmempty)"

definition ex_merged :: Tree where
  "ex_merged = Tree (fmupd ''f'' ex_b fmempty)"

section \<open>Properties\<close>

lemmas ex_defs = ex_env_def ex_world_def ex_labels_def ex_a_def ex_b_def ex_xb_def ex_c_def
  ex_root_def ex_commit_def ex_tree_def ex_current_def ex_base_def ex_other_def ex_merged_def
  ex_link1_def ex_link2_def ex_link3_def ex_link4_def

subsection \<open>The resolution order of \<^verbatim>\<open>merge_entries\<close>\<close>

text \<open>
  C1: for all optional entries \<open>current\<close>, \<open>base\<close>, \<open>other\<close> the rules apply in order and
  the first match wins: if \<open>base = current\<close> the result is \<open>other\<close> (absent when \<open>other\<close>
  is absent); else if \<open>base = other\<close> the result is \<open>current\<close>; else if
  \<open>current = other\<close> the result is \<open>current\<close>.  In each of these cases the world is left
  as it was: the world changes, by a prompt, a merge tool or a recursive merge, only
  when all three comparisons fail.
\<close>

theorem merge_entries_first_match:
  "(base = current \<longrightarrow>
      merge_entries env path labels current base other w = (Inr other, w)) \<and>
   (base \<noteq> current \<and> base = other \<longrightarrow>
      merge_entries env path labels current base other w = (Inr current, w)) \<and>
   (base \<noteq> current \<and> base \<noteq> other \<and> current = other \<longrightarrow>
      merge_entries env path labels current base other w = (Inr current, w)) \<and>
   (snd (merge_entries env path labels current base other w) \<noteq> w \<longrightarrow>
      base \<noteq> current \<and> base \<noteq> other \<and> current \<noteq> other)"
  by (auto simp: merge_entries.simps)

theorem merge_entries_first_match_witness:
  "merge_entries (ex_env 0) ''/f'' ex_labels (Some ex_a) (Some ex_a) None (ex_world [])
     = (Inr None, ex_world []) \<and>
   merge_entries (ex_env 0) ''/f'' ex_labels (Some ex_b) (Some ex_a) (Some ex_a) (ex_world [])
     = (Inr (Some ex_b), ex_world []) \<and>
   merge_entries (ex_env 0) ''/f'' ex_labels (Some ex_b) (Some ex_a) (Some ex_b) (ex_world [])
     = (Inr (Some ex_b), ex_world []) \<and>
   snd (merge_entries (ex_env 0) ''/f'' ex_labels None (Some ex_a) (Some ex_b) (ex_world [''2'']))
     \<noteq> ex_world [''2''] \<and>
   Some ex_a \<noteq> None \<and> Some ex_a \<noteq> Some ex_b \<and> None \<noteq> Some ex_b"
  using
    merge_entries_first_match [where base = "Some ex_a" and current = "Some ex_a"
      and other = None and env = "ex_env 0" and path = "''/f''" and labels = ex_labels
      and w = "ex_world []"]
    merge_entries_first_match [where base = "Some ex_a" and current = "Some ex_b"
      and other = "Some ex_a" and env = "ex_env 0" and path = "''/f''" and labels = ex_labels
      and w = "ex_world []"]
    merge_entries_first_match [where base = "Some ex_a" and current = "Some ex_b"
      and other = "Some ex_b" and env = "ex_env 0" and path = "''/f''" and labels = ex_labels
      and w = "ex_world []"]
    merge_entries_first_match [where base = "Some ex_a" and current = None
      and other = "Some ex_b" and env = "ex_env 0" and path = "''/f''" and labels = ex_labels
      and w = "ex_world [''2'']"]
  by (simp add: merge_entries.simps conflict_prompt_def input_def print_def ex_defs)

subsection \<open>\<^verbatim>\<open>rebase\<close>\<close>



subsection \<open>The protocol of \<^verbatim>\<open>merge_blobs\<close>\<close>



text \<open>
  C5, as the code has it: whenever the primary merge tool exits with a negative status,
  \<^verbatim>\<open>merge_blobs\<close> raises \<^verbatim>\<open>MergeConflict("git merge-file errored")\<close>, an exception of the
  same class \<^verbatim>\<open>MergeConflict\<close> that signals an abandoned conflict and told from it by its
  message only; the world has gained the run of the primary tool only, so the secondary
  tool is not run and no confirmation is asked.
\<close>

theorem merge_blobs_tool_error:
  "(let f_base = (case base of None \<Rightarrow> [] | Some b \<Rightarrow> body b);
        current_lbl = file_label path l0;
        base_lbl = file_label path l1;
        other_lbl = file_label path l2
    in fst (git_merge_file env current_lbl base_lbl other_lbl (body current) f_base (body other)) < 0
       \<longrightarrow>
       merge_blobs env path (l0, l1, l2) current base other w =
         (Inl (MergeConflict ''git merge-file errored''),
          w\<lparr>trace := trace w @
            [Git_merge_file current_lbl base_lbl other_lbl (body current) f_base (body other)]\<rparr>))"
  by (simp add: merge_blobs_def Let_def)

theorem merge_blobs_tool_error_witness:
  "fst (git_merge_file (ex_env (- 1)) (file_label ''/f'' ''new parent'')
          (file_label ''/f'' ''old parent'') (file_label ''/f'' ''incoming'') ''a'' [] ''b'') < 0 \<and>
   merge_blobs (ex_env (- 1)) ''/f'' (''new parent'', ''old parent'', ''incoming'')
       (Blob ''a'') None (Blob ''b'') (ex_world [''y'']) =
     (Inl (MergeConflict ''git merge-file errored''),
      \<lparr>stdin = [''y''],
       trace = [Git_merge_file ''/f (new parent)'' ''/f (old parent)'' ''/f (incoming)''
                  ''a'' [] ''b'']\<rparr>)"
  using merge_blobs_tool_error [where env = "ex_env (- 1)" and path = "''/f''"
      and ?l0.0 = "''new parent''" and ?l1.0 = "''old parent''" and ?l2.0 = "''incoming''"
      and current = "Blob ''a''" and base = None and other = "Blob ''b''"
      and w = "ex_world [''y'']"]
  by (simp add: ex_defs file_label_def Let_def)

text \<open>
  C5, as the claim has it, asks for an exception that is not an instance of the class of
  the abandonment signal.  With an exit status of \<open>-1\<close> the exception raised is an
  instance of \<^verbatim>\<open>MergeConflict\<close>, and so is the exception \<^verbatim>\<open>conflict_prompt\<close> raises when
  the user aborts.
\<close>

theorem merge_blobs_tool_error_counterexample:
  "fst (merge_blobs (ex_env (- 1)) ''/f'' ex_labels (Blob ''a'') None (Blob ''b'') (ex_world []))
     = Inl (MergeConflict ''git merge-file errored'') \<and>
   is_MergeConflict (MergeConflict ''git merge-file errored'') \<and>
   fst (conflict_prompt ''/f'' ''Deletion'' ex_labels None ''deleted'' (Some ex_b) ''modified''
          (ex_world [''A'']))
     = Inl (MergeConflict ''aborted'') \<and>
   is_MergeConflict (MergeConflict ''aborted'')"
  by (simp add: merge_blobs_def conflict_prompt_def input_def print_def is_MergeConflict_def
        ex_defs Let_def)

subsection \<open>Deletion against modification\<close>

text \<open>
  C7: when \<open>current\<close> is absent, \<open>base\<close> and \<open>other\<close> are present and differ (so that the
  three equality rules all fail), \<^verbatim>\<open>merge_entries\<close> calls the resolver with the conflict
  kind \<^verbatim>\<open>Deletion\<close>, offering the absent entry described as \<^verbatim>\<open>deleted\<close> and the entry of
  \<open>other\<close> described as \<^verbatim>\<open>modified\<close>.  If the answer is \<^verbatim>\<open>2\<close>, the choice of
  \<^verbatim>\<open>modified\<close>, the result is the entry of \<open>other\<close>; if it is \<^verbatim>\<open>1\<close>, the choice of
  \<^verbatim>\<open>deleted\<close>, the result is absence.
\<close>

theorem merge_entries_deletion_conflict:
  "(let r = merge_entries env path (l0, l1, l2) None (Some b) (Some oth) w;
        w' = w\<lparr>stdin := rest, trace := trace w @
               [Print (''Deletion conflict for '' @ [CHR 0x27] @ path @ [CHR 0x27]),
                Print (''  (1) '' @ l0 @ '': deleted''),
                Print (''  (2) '' @ l1 @ '': modified''),
                Input ''Resolution or (A)bort? '']\<rparr>
    in (b \<noteq> oth \<longrightarrow>
          r = conflict_prompt path ''Deletion'' (l0, l1, l2) None ''deleted'' (Some oth) ''modified'' w) \<and>
       (b \<noteq> oth \<and> stdin w = ''2'' # rest \<longrightarrow> r = (Inr (Some oth), w')) \<and>
       (b \<noteq> oth \<and> stdin w = ''1'' # rest \<longrightarrow> r = (Inr None, w')))"
  by (simp add: merge_entries.simps conflict_prompt_def input_def print_def Let_def)

theorem merge_entries_deletion_conflict_witness:
  "ex_a \<noteq> ex_b \<and>
   merge_entries (ex_env 0) ''/f'' (''new parent'', ''old parent'', ''incoming'')
       None (Some ex_a) (Some ex_b) (ex_world [''2'']) =
     (Inr (Some ex_b),
      \<lparr>stdin = [],
       trace = [Print (''Deletion conflict for '' @ [CHR 0x27] @ ''/f'' @ [CHR 0x27]),
                Print ''  (1) new parent: deleted'',
                Print ''  (2) old parent: modified'',
                Input ''Resolution or (A)bort? '']\<rparr>) \<and>
   merge_entries (ex_env 0) ''/f'' (''new parent'', ''old parent'', ''incoming'')
       None (Some ex_a) (Some ex_b) (ex_world [''1'']) =
     (Inr None,
      \<lparr>stdin = [],
       trace = [Print (''Deletion conflict for '' @ [CHR 0x27] @ ''/f'' @ [CHR 0x27]),
                Print ''  (1) new parent: deleted'',
                Print ''  (2) old parent: modified'',
                Input ''Resolution or (A)bort? '']\<rparr>)"
  using
    merge_entries_deletion_conflict [where env = "ex_env 0" and path = "''/f''"
      and ?l0.0 = "''new parent''" and ?l1.0 = "''old parent''" and ?l2.0 = "''incoming''"
      and b = ex_a and oth = ex_b and w = "ex_world [''2'']" and rest = "[]"]
    merge_entries_deletion_conflict [where env = "ex_env 0" and path = "''/f''"
      and ?l0.0 = "''new parent''" and ?l1.0 = "''old parent''" and ?l2.0 = "''incoming''"
      and b = ex_a and oth = ex_b and w = "ex_world [''1'']" and rest = "[]"]
  by (simp add: merge_entries.simps conflict_prompt_def input_def print_def ex_defs Let_def)

subsection \<open>Two file modes\<close>

text \<open>\<^verbatim>\<open>merge_blobs\<close> prints nothing.\<close>

lemma merge_blobs_prints:
  "filter is_Print (trace (snd (merge_blobs env path labels current base other w)))
     = filter is_Print (trace w)"
  by (cases labels; cases "stdin w")
    (simp_all add: merge_blobs_def input_def Let_def is_Print_def)

text \<open>
  C3: for present entries \<open>current\<close> and \<open>other\<close> whose modes differ and are both file
  kinds, at the mode stage of \<^verbatim>\<open>merge_entries\<close> (lines 97 to 107, reached when the three
  equality rules have failed, that is when \<open>base\<close> is equal to neither of them),
  \<^verbatim>\<open>merge_entries\<close> takes as mode the mode of \<open>other\<close> if
  \<open>base\<close> is present with the mode of \<open>current\<close>, else the mode of \<open>current\<close> if \<open>base\<close> is
  present with the mode of \<open>other\<close>, else \<^verbatim>\<open>EXEC\<close>; the result is then that of
  \<^verbatim>\<open>merge_blobs\<close> on the blobs of \<open>current\<close> and \<open>other\<close>, made an entry of the resolved mode,
  and nothing is printed: the resolver is not called.
\<close>

theorem merge_entries_file_modes:
  "mode cur \<noteq> mode oth \<Longrightarrow> is_file (mode cur) \<Longrightarrow> is_file (mode oth) \<Longrightarrow>
   base \<noteq> Some cur \<Longrightarrow> base \<noteq> Some oth \<Longrightarrow>
   (let mode' = (if map_option mode base = Some (mode cur) then mode oth
                 else if map_option mode base = Some (mode oth) then mode cur
                 else EXEC);
        baseblob = (case base of None \<Rightarrow> None
                    | Some b \<Rightarrow> if is_file (mode b) then Some (blob b) else None);
        r = merge_entries env path labels (Some cur) base (Some oth) w
    in r = (case merge_blobs env path labels (blob cur) baseblob (blob oth) w of
              (Inl e, w') \<Rightarrow> (Inl e, w')
            | (Inr merged, w') \<Rightarrow> (Inr (Some (Entry mode' (Blob_oid merged))), w')) \<and>
       filter is_Print (trace (snd r)) = filter is_Print (trace w))"
proof -
  assume diff: "mode cur \<noteq> mode oth"
    and fc: "is_file (mode cur)" and fo: "is_file (mode oth)"
    and bc: "base \<noteq> Some cur" and bo: "base \<noteq> Some oth"
  define mode' where "mode' = (if map_option mode base = Some (mode cur) then mode oth
                 else if map_option mode base = Some (mode oth) then mode cur
                 else EXEC)"
  define baseblob where "baseblob = (case base of None \<Rightarrow> None
                    | Some b \<Rightarrow> if is_file (mode b) then Some (blob b) else None)"
  have rm: "resolve_mode cur base oth = Some mode'"
    using diff fc fo by (cases base) (auto simp: resolve_mode_def mode'_def)
  have fm: "is_file mode'"
    using fc fo by (simp add: mode'_def is_file_def)
  have neq: "Some cur \<noteq> Some oth"
    using diff by auto
  have eq: "merge_entries env path labels (Some cur) base (Some oth) w =
      (case merge_blobs env path labels (blob cur) baseblob (blob oth) w of
              (Inl e, w') \<Rightarrow> (Inl e, w')
            | (Inr merged, w') \<Rightarrow> (Inr (Some (Entry mode' (Blob_oid merged))), w'))"
    using bc bo neq rm fm by (simp add: merge_entries.simps baseblob_def)
  have "snd (merge_entries env path labels (Some cur) base (Some oth) w)
          = snd (merge_blobs env path labels (blob cur) baseblob (blob oth) w)"
    unfolding eq by (simp split: prod.splits sum.splits)
  then have "filter is_Print (trace (snd (merge_entries env path labels (Some cur) base (Some oth) w)))
      = filter is_Print (trace w)"
    by (simp add: merge_blobs_prints)
  with eq show ?thesis
    unfolding Let_def mode'_def baseblob_def by blast
qed

theorem merge_entries_file_modes_witness:
  "mode ex_xb \<noteq> mode ex_c \<and> is_file (mode ex_xb) \<and> is_file (mode ex_c) \<and>
   Some ex_a \<noteq> Some ex_xb \<and> Some ex_a \<noteq> Some ex_c \<and>
   merge_entries (ex_env 0) ''/f'' ex_labels (Some ex_xb) (Some ex_a) (Some ex_c) (ex_world [])
     = (Inr (Some (Entry EXEC (Blob_Oid ''bc''))),
        \<lparr>stdin = [],
         trace = [Git_merge_file ''/f (new parent)'' ''/f (old parent)'' ''/f (incoming)''
                    ''b'' ''a'' ''c'']\<rparr>)"
proof -
  have h: "mode ex_xb \<noteq> mode ex_c" "is_file (mode ex_xb)" "is_file (mode ex_c)"
    "Some ex_a \<noteq> Some ex_xb" "Some ex_a \<noteq> Some ex_c"
    by (simp_all add: ex_defs is_file_def)
  show ?thesis
    using h merge_entries_file_modes [OF h, where env = "ex_env 0" and path = "''/f''"
        and labels = ex_labels and w = "ex_world []"]
    by (simp add: merge_blobs_def blob_def Blob_get_def Blob_oid_def file_label_def is_file_def
          ex_defs Let_def)
qed

text \<open>
  C9: when \<open>base\<close> is absent and \<open>current\<close> and \<open>other\<close> are present entries of file kind
  with different modes, \<^verbatim>\<open>merge_entries\<close> takes the mode \<^verbatim>\<open>EXEC\<close> and the result is that
  of \<^verbatim>\<open>merge_blobs\<close> on the blobs of \<open>current\<close> and \<open>other\<close> with no base blob, made an
  entry of mode \<^verbatim>\<open>EXEC\<close>.
\<close>

theorem merge_entries_file_modes_no_base:
  "is_file (mode cur) \<Longrightarrow> is_file (mode oth) \<Longrightarrow> mode cur \<noteq> mode oth \<Longrightarrow>
   merge_entries env path labels (Some cur) None (Some oth) w =
     (case merge_blobs env path labels (blob cur) None (blob oth) w of
        (Inl e, w') \<Rightarrow> (Inl e, w')
      | (Inr merged, w') \<Rightarrow> (Inr (Some (Entry EXEC (Blob_oid merged))), w'))"
proof -
  assume fc: "is_file (mode cur)" and fo: "is_file (mode oth)" and diff: "mode cur \<noteq> mode oth"
  have rm: "resolve_mode cur None oth = Some EXEC"
    using fc fo diff by (simp add: resolve_mode_def)
  have neq: "Some cur \<noteq> Some oth"
    using diff by auto
  show ?thesis
    using rm neq by (simp add: merge_entries.simps is_file_def)
qed

theorem merge_entries_file_modes_no_base_witness:
  "is_file (mode ex_a) \<and> is_file (mode ex_xb) \<and> mode ex_a \<noteq> mode ex_xb \<and>
   merge_entries (ex_env 0) ''/f'' ex_labels (Some ex_a) None (Some ex_xb) (ex_world [])
     = (Inr (Some (Entry EXEC (Blob_Oid ''ab''))),
        \<lparr>stdin = [],
         trace = [Git_merge_file ''/f (new parent)'' ''/f (old parent)'' ''/f (incoming)''
                    ''a'' [] ''b'']\<rparr>)"
proof -
  have h: "is_file (mode ex_a)" "is_file (mode ex_xb)" "mode ex_a \<noteq> mode ex_xb"
    by (simp_all add: ex_defs is_file_def)
  show ?thesis
    using h merge_entries_file_modes_no_base [OF h, where env = "ex_env 0" and path = "''/f''"
        and labels = ex_labels and w = "ex_world []"]
    by (simp add: merge_blobs_def blob_def Blob_get_def Blob_oid_def file_label_def
          ex_defs Let_def)
qed

subsection \<open>Merging a tree with itself\<close>

lemma enumerates_ex_env: "enumerates (ex_env rc)"
  by (simp add: enumerates_def ex_env_def sorted_list_of_fset.rep_eq)

lemma merge_trees_loop_same:
  "\<exists>es'. merge_trees_loop env path labels t t t names es w = (Inr es', w) \<and>
     (\<forall>n. fmlookup es' n =
        (if n \<in> set names \<and> fmlookup (entries t) n \<noteq> None then fmlookup (entries t) n
         else fmlookup es n))"
proof (induction names arbitrary: es)
  case Nil
  show ?case by simp
next
  case (Cons name names)
  let ?es1 = "case fmlookup (entries t) name of None \<Rightarrow> es | Some m \<Rightarrow> fmupd name m es"
  have step: "merge_entries env (path_div path (decode_replace env name)) labels
      (fmlookup (entries t) name) (fmlookup (entries t) name) (fmlookup (entries t) name) w
      = (Inr (fmlookup (entries t) name), w)"
    by (simp add: merge_entries.simps)
  from Cons.IH [of ?es1] obtain es' where
    run: "merge_trees_loop env path labels t t t names ?es1 w = (Inr es', w)" and
    look: "\<And>n. fmlookup es' n =
        (if n \<in> set names \<and> fmlookup (entries t) n \<noteq> None then fmlookup (entries t) n
         else fmlookup ?es1 n)"
    by blast
  have "merge_trees_loop env path labels t t t (name # names) es w = (Inr es', w)"
    using step run by simp
  moreover have "fmlookup es' n =
        (if n \<in> set (name # names) \<and> fmlookup (entries t) n \<noteq> None
         then fmlookup (entries t) n else fmlookup es n)" for n
    unfolding look [of n] by (cases "fmlookup (entries t) name") auto
  ultimately show ?case by blast
qed

text \<open>
  C6: for every tree \<open>t\<close>, \<^verbatim>\<open>merge_trees\<close> of \<open>t\<close>, \<open>t\<close> and \<open>t\<close> returns a tree equal to \<open>t\<close>,
  hence of the same Oid, and leaves the world as it was: nothing is printed or asked and
  no merge tool is run, so neither the resolver nor the content merger is called.  Python
  enumerates each name of the set of names once.
\<close>

theorem merge_trees_same:
  "enumerates env \<Longrightarrow> merge_trees env path labels t t t w = (Inr t, w)"
proof -
  assume en: "enumerates env"
  let ?names = "fmdom (entries t) |\<union>| (fmdom (entries t) |\<union>| fmdom (entries t))"
  from merge_trees_loop_same [of env path labels t "iter_set env ?names" fmempty w]
  obtain es' where
    run: "merge_trees_loop env path labels t t t (iter_set env ?names) fmempty w = (Inr es', w)"
    and look: "\<And>n. fmlookup es' n =
        (if n \<in> set (iter_set env ?names) \<and> fmlookup (entries t) n \<noteq> None
         then fmlookup (entries t) n else fmlookup fmempty n)"
    by blast
  have names: "set (iter_set env ?names) = fset (fmdom (entries t))"
    using en by (simp add: enumerates_def)
  have "fmlookup es' n = fmlookup (entries t) n" for n
    unfolding look [of n] names by (auto simp: fmdom_notI)
  then have "es' = entries t"
    by (rule fmap_ext)
  then show ?thesis
    using run by (simp add: merge_trees.simps Tree_create_def)
qed

theorem merge_trees_same_witness:
  "enumerates (ex_env 0) \<and>
   merge_trees (ex_env 0) ''/'' ex_labels ex_tree ex_tree ex_tree (ex_world [])
     = (Inr ex_tree, ex_world [])"
  using enumerates_ex_env [of 0]
    merge_trees_same [OF enumerates_ex_env [of 0], of "''/''" ex_labels ex_tree "ex_world []"]
  by simp

subsection \<open>The names of the merged tree\<close>

lemma merge_trees_loop_calls:
  assumes "merge_trees_loop env path labels current base other names es w = (Inr es', w')"
    and "distinct names"
  shows "map fst (merge_entries_calls env path labels current base other names w) = names \<and>
    (\<forall>n. n \<notin> set names \<longrightarrow> fmlookup es' n = fmlookup es n) \<and>
    (\<forall>(n, r) \<in> set (merge_entries_calls env path labels current base other names w).
       \<exists>merged. fst r = Inr merged \<and>
         fmlookup es' n = (case merged of None \<Rightarrow> fmlookup es n | Some m \<Rightarrow> Some m))"
  using assms
proof (induction names arbitrary: es w)
  case Nil
  then show ?case by simp
next
  case (Cons name names)
  let ?r = "merge_entries env (path_div path (decode_replace env name)) labels
                (fmlookup (entries current) name)
                (fmlookup (entries base) name)
                (fmlookup (entries other) name) w"
  from Cons.prems(1) obtain merged w1 where r: "?r = (Inr merged, w1)"
    by (cases ?r; cases "fst ?r") auto
  let ?es1 = "case merged of None \<Rightarrow> es | Some m \<Rightarrow> fmupd name m es"
  let ?rest = "merge_entries_calls env path labels current base other names w1"
  have run: "merge_trees_loop env path labels current base other names ?es1 w1 = (Inr es', w')"
    using Cons.prems(1) r by simp
  have dist: "distinct names" and fresh: "name \<notin> set names"
    using Cons.prems(2) by simp_all
  from Cons.IH [OF run dist] have
    ih1: "map fst ?rest = names" and
    ih2: "\<And>n. n \<notin> set names \<Longrightarrow> fmlookup es' n = fmlookup ?es1 n" and
    ih3: "\<And>n r. (n, r) \<in> set ?rest \<Longrightarrow>
       \<exists>merged. fst r = Inr merged \<and>
         fmlookup es' n = (case merged of None \<Rightarrow> fmlookup ?es1 n | Some m \<Rightarrow> Some m)"
    by blast+
  have calls: "merge_entries_calls env path labels current base other (name # names) w
      = (name, ?r) # ?rest"
    using r by (simp add: Let_def)
  have c1: "map fst (merge_entries_calls env path labels current base other (name # names) w)
      = name # names"
    using calls ih1 by simp
  have c2: "fmlookup es' n = fmlookup es n" if "n \<notin> set (name # names)" for n
    using that ih2 [of n] by (cases merged) auto
  have head: "fmlookup es' name = (case merged of None \<Rightarrow> fmlookup es name | Some m \<Rightarrow> Some m)"
    using ih2 [OF fresh] by (cases merged) auto
  have c3: "\<exists>merged. fst r' = Inr merged \<and>
         fmlookup es' n = (case merged of None \<Rightarrow> fmlookup es n | Some m \<Rightarrow> Some m)"
    if mem: "(n, r') \<in> set (merge_entries_calls env path labels current base other (name # names) w)"
    for n r'
  proof (cases "(n, r') = (name, ?r)")
    case True
    then show ?thesis using head r by auto
  next
    case False
    then have in_rest: "(n, r') \<in> set ?rest"
      using mem calls by auto
    then have "n \<in> set names"
      using ih1 by (metis fst_conv image_eqI set_map)
    then have "n \<noteq> name"
      using fresh by auto
    then have "fmlookup ?es1 n = fmlookup es n"
      by (cases merged) auto
    with ih3 [OF in_rest] show ?thesis by (auto split: option.splits)
  qed
  show ?case
    using c1 c2 c3 by blast
qed

text \<open>
  C2: for every three trees \<open>current\<close>, \<open>base\<close> and \<open>other\<close>, when \<^verbatim>\<open>merge_trees\<close> returns a
  tree, \<^verbatim>\<open>merge_entries\<close> was called once for each name of the union of the three sets of
  names and for no other name, every call returned, and the tree holds exactly the names
  for which the call returned a present entry, each with that entry: a name of an input
  is in the result unless its call returned absence, and a name absent from the three
  inputs is not in the result.
\<close>

theorem merge_trees_names:
  "enumerates env \<Longrightarrow> merge_trees env path labels current base other w = (Inr t, w') \<Longrightarrow>
   (let names = fmdom (entries current) |\<union>| (fmdom (entries base) |\<union>| fmdom (entries other));
        calls = merge_entries_calls env path labels current base other (iter_set env names) w
    in distinct (map fst calls) \<and> set (map fst calls) = fset names \<and>
       (\<forall>(n, r) \<in> set calls. \<exists>merged. fst r = Inr merged \<and> fmlookup (entries t) n = merged) \<and>
       fmdom' (entries t) = {n. \<exists>e w1. (n, (Inr (Some e), w1)) \<in> set calls} \<and>
       fmdom (entries t) |\<subseteq>| names)"
proof -
  assume en: "enumerates env"
    and ret: "merge_trees env path labels current base other w = (Inr t, w')"
  define names where
    "names = fmdom (entries current) |\<union>| (fmdom (entries base) |\<union>| fmdom (entries other))"
  define calls where
    "calls = merge_entries_calls env path labels current base other (iter_set env names) w"
  have dist: "distinct (iter_set env names)" and cover: "set (iter_set env names) = fset names"
    using en by (simp_all add: enumerates_def)
  from ret obtain es where
    run: "merge_trees_loop env path labels current base other (iter_set env names) fmempty w
            = (Inr es, w')"
    and t: "t = Tree_create es"
    unfolding merge_trees.simps [of env path labels current base other w] names_def Let_def
    by (auto split: prod.splits sum.splits)
  have es: "entries t = es"
    using t by (simp add: Tree_create_def)
  from merge_trees_loop_calls [OF run dist] have
    visited: "map fst calls = iter_set env names" and
    outside: "\<And>n. n \<notin> set (iter_set env names) \<Longrightarrow> fmlookup es n = None" and
    inside: "\<And>n r. (n, r) \<in> set calls \<Longrightarrow> \<exists>merged. fst r = Inr merged \<and> fmlookup es n = merged"
    unfolding calls_def by (auto split: option.splits)
  have p1: "distinct (map fst calls)"
    using visited dist by simp
  have p2: "set (map fst calls) = fset names"
    using visited cover by simp
  have p3: "\<forall>(n, r) \<in> set calls. \<exists>merged. fst r = Inr merged \<and> fmlookup (entries t) n = merged"
    using inside es by auto
  have p5: "fmdom (entries t) |\<subseteq>| names"
  proof
    fix n assume "n |\<in>| fmdom (entries t)"
    then have "fmlookup es n \<noteq> None"
      using es by (auto simp: fmdom_notI)
    then have "n \<in> set (iter_set env names)"
      by (rule contrapos_np) (rule outside)
    then show "n |\<in>| names"
      using cover by simp
  qed
  have p4: "fmdom' (entries t) = {n. \<exists>e w1. (n, (Inr (Some e), w1)) \<in> set calls}"
  proof (rule set_eqI, rule iffI)
    fix n assume "n \<in> fmdom' (entries t)"
    then obtain e where e: "fmlookup es n = Some e"
      using es by (auto simp: fmdom'_alt_def dest: fmdomE)
    have "n \<in> set (iter_set env names)"
    proof (rule ccontr)
      assume "n \<notin> set (iter_set env names)"
      then have "fmlookup es n = None"
        by (rule outside)
      with e show False by simp
    qed
    then have "n \<in> set (map fst calls)"
      by (simp only: visited)
    then obtain r where r: "(n, r) \<in> set calls"
      by auto
    from inside [OF r] e have "fst r = Inr (Some e)"
      by auto
    then have "(n, (Inr (Some e), snd r)) \<in> set calls"
      using r by (cases r) simp
    then show "n \<in> {n. \<exists>e w1. (n, (Inr (Some e), w1)) \<in> set calls}"
      by blast
  next
    fix n assume "n \<in> {n. \<exists>e w1. (n, (Inr (Some e), w1)) \<in> set calls}"
    then obtain e w1 where "(n, (Inr (Some e), w1)) \<in> set calls"
      by blast
    from inside [OF this] have "fmlookup es n = Some e"
      by simp
    then show "n \<in> fmdom' (entries t)"
      using es by (simp add: fmdom'I)
  qed
  show ?thesis
    using p1 p2 p3 p4 p5 unfolding Let_def names_def [symmetric] calls_def [symmetric]
    by blast
qed

theorem merge_trees_names_witness:
  "enumerates (ex_env 0) \<and>
   merge_trees (ex_env 0) ''/'' ex_labels ex_current ex_base ex_other (ex_world [])
     = (Inr ex_merged, ex_world []) \<and>
   merge_entries_calls (ex_env 0) ''/'' ex_labels ex_current ex_base ex_other [''f'', ''g'']
       (ex_world [])
     = [(''f'', Inr (Some ex_b), ex_world []), (''g'', Inr None, ex_world [])] \<and>
   fmdom' (entries ex_merged) = {''f''} \<and>
   fmdom (entries ex_merged) |\<subseteq>| {|''f'', ''g''|}"
proof -
  have h1: "enumerates (ex_env 0)"
    by (rule enumerates_ex_env)
  have h2: "merge_trees (ex_env 0) ''/'' ex_labels ex_current ex_base ex_other (ex_world [])
     = (Inr ex_merged, ex_world [])"
    by (simp add: merge_trees.simps merge_entries.simps Tree_create_def ex_current_def
          ex_base_def ex_other_def ex_merged_def ex_defs sorted_list_of_fset.rep_eq)
  show ?thesis
    using h1 h2 merge_trees_names [OF h1 h2]
    by (simp add: merge_entries.simps ex_current_def ex_base_def ex_other_def
          ex_merged_def ex_defs Let_def)
qed

subsection \<open>The exceptions of \<^verbatim>\<open>merge_entries\<close>\<close>

lemma conflict_prompt_raises:
  "fst (conflict_prompt path descr labels current current_descr other other_descr w) = Inl e
     \<Longrightarrow> e \<in> resolver_errors"
  by (cases labels; cases "stdin w")
    (auto simp: conflict_prompt_def input_def print_def Let_def resolver_errors_def split: if_splits)

lemma merge_blobs_raises:
  "fst (merge_blobs env path labels current base other w) = Inl e \<Longrightarrow> e \<in> merger_errors"
  by (cases labels; cases "stdin w")
    (auto simp: merge_blobs_def input_def Let_def merger_errors_def split: if_splits)

lemma mode_arms: "is_file m \<or> m = DIR \<or> m = SYMLINK \<or> m = GITLINK"
  by (cases m) (simp_all add: is_file_def)

lemma fst_case_Inl:
  "fst (case r of (Inl e, w') \<Rightarrow> (Inl e, w') | (Inr x, w') \<Rightarrow> (Inr (f x), w')) = Inl e
     \<Longrightarrow> fst r = Inl e"
  by (cases r; cases "fst r") auto

text \<open>
  An exception that leaves \<^verbatim>\<open>merge_trees\<close>, its loop or \<^verbatim>\<open>merge_entries\<close> was raised by the
  resolver, by the content merger or by the strict decoding of a symlink target: by
  induction on the calls of the three functions.
\<close>

lemma merge_raises:
  "fst (merge_trees env path labels ct bt ot w) = Inl e \<longrightarrow> e \<in> resolver_errors \<union> merger_errors \<union> decode_errors"
  "fst (merge_trees_loop env path labels ct bt ot names es w) = Inl e
     \<longrightarrow> e \<in> resolver_errors \<union> merger_errors \<union> decode_errors"
  "fst (merge_entries env path labels current base other w) = Inl e
     \<longrightarrow> e \<in> resolver_errors \<union> merger_errors \<union> decode_errors"
proof (induction env path labels ct bt ot w and env path labels ct bt ot names es w
    and env path labels current base other w
    rule: merge_trees_merge_trees_loop_merge_entries.induct)
  case (1 env path labels current base other w)
  let ?names = "fmdom (entries current) |\<union>| (fmdom (entries base) |\<union>| fmdom (entries other))"
  have eq: "merge_trees env path labels current base other w =
      (case merge_trees_loop env path labels current base other (iter_set env ?names) fmempty w of
         (Inl e, w') \<Rightarrow> (Inl e, w')
       | (Inr es, w') \<Rightarrow> (Inr (Tree_create es), w'))"
    by (simp add: merge_trees.simps)
  show ?case
  proof
    assume "fst (merge_trees env path labels current base other w) = Inl e"
    then have "fst (merge_trees_loop env path labels current base other (iter_set env ?names)
        fmempty w) = Inl e"
      unfolding eq by (rule fst_case_Inl)
    with 1 [OF refl] show "e \<in> resolver_errors \<union> merger_errors \<union> decode_errors"
      by simp
  qed
next
  case (2 env path labels current base other es w)
  show ?case by simp
next
  case (3 env path labels current base other name names es w)
  let ?r = "merge_entries env (path_div path (decode_replace env name)) labels
              (fmlookup (entries current) name) (fmlookup (entries base) name)
              (fmlookup (entries other) name) w"
  show ?case
  proof (cases "fst ?r")
    case (Inl e')
    then have "fst (merge_trees_loop env path labels current base other (name # names) es w)
        = Inl e'"
      by (cases ?r) simp
    with 3(1) Inl show ?thesis by simp
  next
    case (Inr merged)
    then have r: "(Inr merged, snd ?r) = ?r"
      by (cases ?r) simp
    have "merge_trees_loop env path labels current base other (name # names) es w
        = merge_trees_loop env path labels current base other names
            (case merged of None \<Rightarrow> es | Some m \<Rightarrow> fmupd name m es) (snd ?r)"
      using Inr by (cases ?r) auto
    with 3(2) [OF r refl] show ?thesis by simp
  qed
next
  case (4 env path labels current base other w)
  have prompt: "fst (merge_entries env path labels current base other w) = Inl e
      \<longrightarrow> e \<in> resolver_errors \<union> merger_errors \<union> decode_errors"
    if "merge_entries env path labels current base other w =
          conflict_prompt path descr labels current cd other od w" for descr cd od
    unfolding that by (auto dest: conflict_prompt_raises)
  show ?case
  proof (cases "base = current \<or> base = other \<or> current = other")
    case True
    then show ?thesis
      by (subst merge_entries.simps) auto
  next
    case rules: False
    show ?thesis
    proof (cases current)
      case None
      with rules show ?thesis
        by (intro prompt [of "''Deletion''" "''deleted''" "''modified''"])
              (auto simp: merge_entries.simps)
    next
      case cur: (Some cur)
      show ?thesis
      proof (cases other)
        case None
        with rules cur show ?thesis
          by (intro prompt [of "''Deletion''" "''modified''" "''deleted''"])
              (auto simp: merge_entries.simps)
      next
        case oth: (Some oth)
        show ?thesis
        proof (cases "resolve_mode cur base oth")
          case None
          with rules cur oth show ?thesis
            by (intro prompt [of "''Entry type''" "str_mode env (mode cur)" "str_mode env (mode oth)"])
              (auto simp: merge_entries.simps)
        next
          case rm: (Some m)
          consider (blob_arm) "is_file m" | (tree_arm) "\<not> is_file m" "m = DIR"
            | (symlink_arm) "\<not> is_file m" "m = SYMLINK" | (gitlink_arm) "\<not> is_file m" "m = GITLINK"
            using mode_arms [of m] by (cases m) auto
          then show ?thesis
          proof cases
            case blob_arm
            let ?baseblob = "case base of None \<Rightarrow> None
                | Some b \<Rightarrow> if is_file (mode b) then Some (blob b) else None"
            have eq: "merge_entries env path labels current base other w =
                (case merge_blobs env path labels (blob cur) ?baseblob (blob oth) w of
                   (Inl e, w') \<Rightarrow> (Inl e, w')
                 | (Inr merged, w') \<Rightarrow> (Inr (Some (Entry m (Blob_oid merged))), w'))"
              using rules cur oth rm blob_arm by (simp add: merge_entries.simps)
            show ?thesis
            proof
              assume "fst (merge_entries env path labels current base other w) = Inl e"
              then have "fst (merge_blobs env path labels (blob cur) ?baseblob (blob oth) w) = Inl e"
                unfolding eq by (rule fst_case_Inl)
              then have "e \<in> merger_errors"
                by (rule merge_blobs_raises)
              then show "e \<in> resolver_errors \<union> merger_errors \<union> decode_errors"
                by simp
            qed
          next
            case tree_arm
            let ?basetree = "case base of None \<Rightarrow> Tree_empty
                | Some b \<Rightarrow> if mode b = DIR then tree b else Tree_empty"
            have eq: "merge_entries env path labels current base other w =
                (case merge_trees env path labels (tree cur) ?basetree (tree oth) w of
                   (Inl e, w') \<Rightarrow> (Inl e, w')
                 | (Inr merged, w') \<Rightarrow> (Inr (Some (Entry DIR (Tree_oid merged))), w'))"
              using rules cur oth rm tree_arm by (simp add: merge_entries.simps is_file_def)
            have ih: "fst (merge_trees env path labels (tree cur) ?basetree (tree oth) w) = Inl e
                \<longrightarrow> e \<in> resolver_errors \<union> merger_errors \<union> decode_errors"
              using rules by (intro 4 [OF _ _ _ cur oth rm tree_arm refl]) auto
            show ?thesis
            proof
              assume "fst (merge_entries env path labels current base other w) = Inl e"
              then have "fst (merge_trees env path labels (tree cur) ?basetree (tree oth) w) = Inl e"
                unfolding eq by (rule fst_case_Inl)
              with ih show "e \<in> resolver_errors \<union> merger_errors \<union> decode_errors"
                by simp
            qed
          next
            case symlink_arm
            show ?thesis
            proof (cases "decode env (symlink cur)")
              case None
              with rules cur oth rm symlink_arm
              have "merge_entries env path labels current base other w = (Inl UnicodeDecodeError, w)"
                by (auto simp: merge_entries.simps is_file_def)
              then show ?thesis
                by (simp add: decode_errors_def)
            next
              case cd: (Some current_descr)
              show ?thesis
              proof (cases "decode env (symlink oth)")
                case None
                with rules cur oth rm symlink_arm cd
                have "merge_entries env path labels current base other w
                    = (Inl UnicodeDecodeError, w)"
                  by (auto simp: merge_entries.simps is_file_def)
                then show ?thesis
                  by (simp add: decode_errors_def)
              next
                case (Some other_descr)
                with rules cur oth rm symlink_arm cd show ?thesis
                  by (intro prompt [of "''Symlink''" current_descr other_descr])
                    (auto simp: merge_entries.simps is_file_def)
              qed
            qed
          next
            case gitlink_arm
            with rules cur oth rm show ?thesis
              by (intro prompt [of "''Submodule''" "str_oid env (oid cur)" "str_oid env (oid oth)"])
              (auto simp: merge_entries.simps is_file_def)
          qed
        qed
      qed
    qed
  qed
qed

text \<open>
  The last branch of \<^verbatim>\<open>merge_entries\<close>, which raises \<^verbatim>\<open>ValueError("unknown mode")\<close>, is never
  taken: every mode is one of the five kinds, the arms for the file kinds, \<^verbatim>\<open>DIR\<close>,
  \<^verbatim>\<open>SYMLINK\<close> and \<^verbatim>\<open>GITLINK\<close> cover them all, and \<^verbatim>\<open>merge_entries\<close> never raises a
  \<^verbatim>\<open>ValueError\<close>.  An exception it raises is one of the resolver, one of the content merger,
  or the \<^verbatim>\<open>UnicodeDecodeError\<close> of lines 130 and 131.
\<close>

lemma merge_entries_raises:
  "(is_file m \<or> m = DIR \<or> m = SYMLINK \<or> m = GITLINK) \<and>
   fst (merge_entries env path labels current base other w) \<noteq> Inl (ValueError msg) \<and>
   (fst (merge_entries env path labels current base other w) = Inl e \<longrightarrow>
      e \<in> resolver_errors \<union> merger_errors \<union> decode_errors)"
proof -
  have arms: "is_file m \<or> m = DIR \<or> m = SYMLINK \<or> m = GITLINK"
    by (rule mode_arms)
  have "ValueError msg \<notin> resolver_errors \<union> merger_errors \<union> decode_errors"
    by (simp add: resolver_errors_def merger_errors_def decode_errors_def)
  with merge_raises(3) [of env path labels current base other w "ValueError msg"]
  have never: "fst (merge_entries env path labels current base other w) \<noteq> Inl (ValueError msg)"
    by auto
  from arms never merge_raises(3) [of env path labels current base other w e]
  show ?thesis by simp
qed

text \<open>
  Two symlinks with targets that decode reach the ``Symlink'' prompt of line 129; when the
  user aborts there, the exception is the one of the resolver.
\<close>

lemma merge_entries_symlink_prompt:
  "fst (merge_entries (ex_env 0) ''/l'' ex_labels (Some ex_link3) None (Some ex_link4)
          (ex_world [''A'']))
     = Inl (MergeConflict ''aborted'') \<and>
   MergeConflict ''aborted'' \<in> resolver_errors \<and>
   merge_entries (ex_env 0) ''/l'' ex_labels (Some ex_link3) None (Some ex_link4)
       (ex_world [''2''])
     = (Inr (Some ex_link4),
        \<lparr>stdin = [],
         trace = [Print (''Symlink conflict for '' @ [CHR 0x27] @ ''/l'' @ [CHR 0x27]),
                  Print ''  (1) new parent: x'',
                  Print ''  (2) old parent: y'',
                  Input ''Resolution or (A)bort? '']\<rparr>)"
  by (simp add: merge_entries.simps resolve_mode_def is_file_def symlink_def Blob_get_def
        conflict_prompt_def input_def print_def resolver_errors_def ex_defs)

text \<open>
  C10: the claim has \<^verbatim>\<open>merge_entries\<close> return a result or raise only through the resolver or
  the content merger.  With \<open>base\<close> absent and \<open>current\<close> and \<open>other\<close> two symlinks whose
  targets are the bytes \<open>0xFF\<close> and \<open>0xFE\<close>, the mode stage resolves \<^verbatim>\<open>SYMLINK\<close>, and
  \<^verbatim>\<open>merge_entries\<close> raises \<^verbatim>\<open>UnicodeDecodeError\<close> and leaves the world as it was: the
  exception comes from \<^verbatim>\<open>current.symlink().decode()\<close> at line 130, evaluated by
  \<^verbatim>\<open>merge_entries\<close> itself before the resolver is called, and it is neither an exception
  of the resolver nor one of the content merger.  Line 64 decodes a name with
  \<^verbatim>\<open>errors='replace'\<close>, which never raises.
\<close>

theorem merge_entries_symlink_decode_error:
  "resolve_mode ex_link1 None ex_link2 = Some SYMLINK \<and>
   symlink ex_link1 = [CHR 0xFF] \<and>
   decode (ex_env 0) (symlink ex_link1) = None \<and>
   merge_entries (ex_env 0) ''/l'' ex_labels (Some ex_link1) None (Some ex_link2)
       (ex_world [''1''])
     = (Inl UnicodeDecodeError, ex_world [''1'']) \<and>
   UnicodeDecodeError \<notin> resolver_errors \<union> merger_errors"
  by (simp add: merge_entries.simps resolve_mode_def is_file_def symlink_def Blob_get_def
        resolver_errors_def merger_errors_def ex_defs)

end
